theory Spec2Isabelle
  imports Main "HOL-Library.Sublist" "HOL-Library.Multiset"
begin

section \<open>HealthyHabits: the recommendation engine, the profile table and the translation fallback\<close>

text \<open>
  A shallow embedding of \<^verbatim>\<open>healthyhabits_app.py\<close>. Python text is modelled as
  \<^typ>\<open>string\<close>, one \<^typ>\<open>char\<close> per character with code below 256; every line of advice
  the program emits is plain ASCII. The list the multiselect widget returns, and the list
  \<^verbatim>\<open>str.split\<close> returns, is a \<^typ>\<open>string list\<close>.
\<close>

subsection \<open>Python string operations used by the program\<close>

text \<open>\<^verbatim>\<open>sep.join(xs)\<close>.\<close>

fun str_join :: "string \<Rightarrow> string list \<Rightarrow> string" where
  "str_join sep [] = []"
| "str_join sep [x] = x"
| "str_join sep (x # y # ys) = x @ sep @ str_join sep (y # ys)"

text \<open>
  \<^verbatim>\<open>str.isspace\<close> on one character, for the characters below 256: tab, line feed,
  vertical tab, form feed, carriage return, the four separators 28 to 31, space, next line
  (133) and no-break space (160).
\<close>

definition isspace :: "char \<Rightarrow> bool" where
  "isspace c = ((of_char c :: nat) \<in> {9, 10, 11, 12, 13, 28, 29, 30, 31, 32, 133, 160})"

text \<open>\<^verbatim>\<open>s.strip()\<close>: whitespace removed at both ends.\<close>

definition str_strip :: "string \<Rightarrow> string" where
  "str_strip s = rev (dropWhile isspace (rev (dropWhile isspace s)))"

text \<open>\<^verbatim>\<open>s.split(d)\<close> for a separator \<open>d\<close> of one character (the program uses a comma).\<close>

fun str_split :: "char \<Rightarrow> string \<Rightarrow> string list" where
  "str_split d [] = [[]]"
| "str_split d (c # cs) =
     (if c = d then [] # str_split d cs
      else (case str_split d cs of
              [] \<Rightarrow> [[c]]
            | w # ws \<Rightarrow> (c # w) # ws))"

subsection \<open>The lines of advice\<close>

definition base_diet :: string where
  "base_diet = ''Include more whole foods: vegetables, fruits, lean proteins, and whole grains.''"

definition base_exercise :: string where
  "base_exercise = ''Aim for at least 30 minutes of moderate activity daily (walking, yoga, or cycling).''"

definition base_sleep :: string where
  "base_sleep = ''Keep consistent sleep schedule. Avoid screens 1 hour before bed.''"

definition base_general :: string where
  "base_general = ''Stay hydrated and avoid excessive sugary drinks.''"

definition thyroid_diet :: string where
  "thyroid_diet = ''For thyroid issues: include selenium-rich foods (nuts, seeds) and iodine sources in moderation; avoid highly processed foods and excessive soy.''"

definition thyroid_exercise :: string where
  "thyroid_exercise = ''Include strength training twice a week to support metabolism.''"

definition apnea_diet :: string where
  "apnea_diet = ''For sleep apnea: avoid heavy meals and caffeine close to bedtime; maintain healthy weight.''"

definition apnea_exercise :: string where
  "apnea_exercise = ''Practice breathing exercises and consider positional therapy (sleeping on side).''"

definition apnea_sleep :: string where
  "apnea_sleep = ''Consult a clinician for breathing-related sleep disorders; avoid alcohol near bedtime.''"

definition heart_diet :: string where
  "heart_diet = ''Heart-healthy diet: reduce saturated fats, increase fiber, include omega-3 sources like fish or flaxseed.''"

definition heart_exercise :: string where
  "heart_exercise = ''Prefer low-impact cardio like brisk walking; check with a doctor before intense exercise.''"

definition heart_general :: string where
  "heart_general = ''Monitor blood pressure and cholesterol regularly.''"

definition weight_loss_diet :: string where
  "weight_loss_diet = ''Control portion sizes, prefer protein-rich breakfasts, and avoid late-night snacking.''"

definition weight_loss_exercise :: string where
  "weight_loss_exercise = ''Incorporate interval walks or brisk walks to increase calorie burn.''"

definition better_sleep_sleep :: string where
  "better_sleep_sleep = ''Create a bedtime routine: warm shower, light stretching, and a calm environment.''"

definition better_sleep_diet :: string where
  "better_sleep_diet = ''Avoid heavy, spicy dinners and caffeine after late afternoon.''"

definition energy_boost_diet :: string where
  "energy_boost_diet = ''Include small, frequent balanced meals; add nuts and fruits for healthy snacks.''"

definition energy_boost_exercise :: string where
  "energy_boost_exercise = ''Short morning walks and light stretching improve daytime alertness.''"

text \<open>
  The separator of the text blocks. The source writes it \<^verbatim>\<open>"\\n- "\<close>, which in Python is
  the four characters backslash, \<open>n\<close>, hyphen, space (not a line break).
\<close>

definition bullet :: string where
  "bullet = CHR 0x5C # ''n- ''"

subsection \<open>\<^verbatim>\<open>generate_recommendations\<close>\<close>

text \<open>The four lists the function fills, and the dictionary of four texts it returns.\<close>

record rec_lists =
  diet_recs :: "string list"
  exercise_recs :: "string list"
  sleep_recs :: "string list"
  general_recs :: "string list"

record recommendations =
  diet :: string
  exercise :: string
  sleep :: string
  general :: string

text \<open>The four empty lists, each with its base suggestion appended.\<close>

definition base_suggestions :: rec_lists where
  "base_suggestions =
     \<lparr>diet_recs = [] @ [base_diet],
      exercise_recs = [] @ [base_exercise],
      sleep_recs = [] @ [base_sleep],
      general_recs = [] @ [base_general]\<rparr>"

text \<open>The three \<^verbatim>\<open>if\<close> statements on the conditions, run one after the other.\<close>

definition condition_adjustments :: "string list \<Rightarrow> rec_lists \<Rightarrow> rec_lists" where
  "condition_adjustments conditions r0 =
     (let r1 = (if ''Thyroid'' \<in> set conditions
                then r0\<lparr>diet_recs := diet_recs r0 @ [thyroid_diet],
                        exercise_recs := exercise_recs r0 @ [thyroid_exercise]\<rparr>
                else r0);
          r2 = (if ''Sleep Apnea'' \<in> set conditions
                then r1\<lparr>diet_recs := diet_recs r1 @ [apnea_diet],
                        exercise_recs := exercise_recs r1 @ [apnea_exercise],
                        sleep_recs := sleep_recs r1 @ [apnea_sleep]\<rparr>
                else r1);
          r3 = (if ''Heart Risk'' \<in> set conditions \<or> ''Cardiac History'' \<in> set conditions
                then r2\<lparr>diet_recs := diet_recs r2 @ [heart_diet],
                        exercise_recs := exercise_recs r2 @ [heart_exercise],
                        general_recs := general_recs r2 @ [heart_general]\<rparr>
                else r2)
      in r3)"

text \<open>The \<^verbatim>\<open>if\<close>/\<^verbatim>\<open>elif\<close> chain on the goal.\<close>

definition goal_tweaks :: "string \<Rightarrow> rec_lists \<Rightarrow> rec_lists" where
  "goal_tweaks goal r =
     (if goal = ''Weight Loss''
      then r\<lparr>diet_recs := diet_recs r @ [weight_loss_diet],
              exercise_recs := exercise_recs r @ [weight_loss_exercise]\<rparr>
      else if goal = ''Better Sleep''
      then r\<lparr>sleep_recs := sleep_recs r @ [better_sleep_sleep],
              diet_recs := diet_recs r @ [better_sleep_diet]\<rparr>
      else if goal = ''Energy Boost''
      then r\<lparr>diet_recs := diet_recs r @ [energy_boost_diet],
              exercise_recs := exercise_recs r @ [energy_boost_exercise]\<rparr>
      else r)"

text \<open>The lists as the function holds them just before it collates them.\<close>

definition collect_recs :: "string list \<Rightarrow> string \<Rightarrow> rec_lists" where
  "collect_recs conditions goal = goal_tweaks goal (condition_adjustments conditions base_suggestions)"

text \<open>One text block: the lines joined behind an empty first element, then stripped.\<close>

definition text_block :: "string list \<Rightarrow> string" where
  "text_block recs = str_strip (str_join bullet ([[]] @ recs))"

definition collate :: "rec_lists \<Rightarrow> recommendations" where
  "collate r =
     \<lparr>diet = text_block (diet_recs r),
      exercise = text_block (exercise_recs r),
      sleep = text_block (sleep_recs r),
      general = text_block (general_recs r)\<rparr>"

definition generate_recommendations :: "string list \<Rightarrow> string \<Rightarrow> recommendations" where
  "generate_recommendations conditions goal = collate (collect_recs conditions goal)"

subsection \<open>The profile table\<close>

text \<open>
  A row of the table \<^verbatim>\<open>users\<close> that \<^verbatim>\<open>init_db\<close> creates. The column \<^verbatim>\<open>conditions\<close>
  holds the selected conditions joined by commas; \<^verbatim>\<open>created_at\<close> holds the ISO text of
  the clock reading.
\<close>

record profile_row =
  user_id :: nat
  user_name :: string
  user_age :: int
  user_gender :: string
  user_conditions :: string
  user_goal :: string
  user_created_at :: string

text \<open>
  The database file: the rows in the order they were inserted, and the counter that
  \<^verbatim>\<open>AUTOINCREMENT\<close> keeps of the largest id handed out so far.
\<close>

record db =
  users :: "profile_row list"
  sqlite_sequence :: nat

text \<open>
  \<^verbatim>\<open>CREATE TABLE IF NOT EXISTS\<close>: a file without the table gets an empty one, an
  existing table is left as it is.
\<close>

definition init_db :: "db option \<Rightarrow> db" where
  "init_db file = (case file of None \<Rightarrow> \<lparr>users = [], sqlite_sequence = 0\<rparr> | Some d \<Rightarrow> d)"

text \<open>
  The id an \<^verbatim>\<open>INTEGER PRIMARY KEY AUTOINCREMENT\<close> column gives the next row: one more
  than the largest id in the table and than the counter.
\<close>

definition next_id :: "db \<Rightarrow> nat" where
  "next_id d = Suc (fold max (map user_id (users d)) (sqlite_sequence d))"

text \<open>
  \<^verbatim>\<open>save_profile\<close>: one \<^verbatim>\<open>INSERT\<close>. The last argument \<open>now\<close> stands for
  \<^verbatim>\<open>datetime.now().isoformat()\<close>, which the function reads itself.
\<close>

definition save_profile ::
  "string \<Rightarrow> int \<Rightarrow> string \<Rightarrow> string list \<Rightarrow> string \<Rightarrow> string \<Rightarrow> db \<Rightarrow> db" where
  "save_profile name age gender conditions goal now d =
     \<lparr>users = users d @
        [\<lparr>user_id = next_id d, user_name = name, user_age = age, user_gender = gender,
          user_conditions = str_join '','' conditions, user_goal = goal,
          user_created_at = now\<rparr>],
      sqlite_sequence = next_id d\<rparr>"

text \<open>\<^verbatim>\<open>fetch_profiles\<close>: \<^verbatim>\<open>SELECT * FROM users ORDER BY id DESC\<close>.\<close>

definition fetch_profiles :: "db \<Rightarrow> profile_row list" where
  "fetch_profiles d = rev (sort_key user_id (users d))"

text \<open>The databases the program can produce: a fresh table, then any number of saves.\<close>

inductive reachable :: "db \<Rightarrow> bool" where
  fresh: "reachable (init_db None)"
| saved: "reachable d \<Longrightarrow> reachable (save_profile name age gender conditions goal now d)"

code_pred reachable .

subsection \<open>The two menu branches\<close>

text \<open>
  What a branch shows instead of recommendations: \<open>ValidationError\<close> is the message
  \<^verbatim>\<open>"Please enter a name."\<close>, \<open>NotFoundError\<close> is \<^verbatim>\<open>"Profile ID not found. ..."\<close>,
  \<open>NoProfilesYet\<close> is \<^verbatim>\<open>"No profiles created yet."\<close>.
\<close>

datatype ui_message = ValidationError | NotFoundError | NoProfilesYet

text \<open>The options of the conditions multiselect; a submitted list is a selection of them.\<close>

definition condition_options :: "string list" where
  "condition_options =
     [''Thyroid'', ''Sleep Apnea'', ''Heart Risk'', ''Obesity'', ''Diabetes'', ''None'']"

text \<open>The button of "Create Profile": the name check, then the save and the recommendations.\<close>

definition create_profile ::
  "string \<Rightarrow> int \<Rightarrow> string \<Rightarrow> string list \<Rightarrow> string \<Rightarrow> string \<Rightarrow> db
     \<Rightarrow> (ui_message + recommendations) \<times> db" where
  "create_profile name age gender conditions goal now d =
     (if str_strip name = []
      then (Inl ValidationError, d)
      else (Inr (generate_recommendations conditions goal),
            save_profile name age gender conditions goal now d))"

text \<open>\<^verbatim>\<open>df[df['id']==selected_id]\<close>.\<close>

definition select_id :: "nat \<Rightarrow> profile_row list \<Rightarrow> profile_row list" where
  "select_id selected_id df = filter (\<lambda>r. user_id r = selected_id) df"

text \<open>The conditions read back from a row: split at the commas, or no condition for an empty text.\<close>

definition row_conditions :: "profile_row \<Rightarrow> string list" where
  "row_conditions r =
     (if user_conditions r \<noteq> [] then str_split (CHR '','') (user_conditions r) else [])"

text \<open>The button of "View Profiles".\<close>

definition view_profile :: "nat \<Rightarrow> db \<Rightarrow> ui_message + recommendations" where
  "view_profile selected_id d =
     (let df = fetch_profiles d in
      if df = [] then Inl NoProfilesYet
      else (case select_id selected_id df of
              [] \<Rightarrow> Inl NotFoundError
            | r # _ \<Rightarrow> Inr (generate_recommendations (row_conditions r) (user_goal r))))"

subsection \<open>Translation\<close>

text \<open>
  The module binds \<^verbatim>\<open>translate_text\<close> once, depending on whether \<^verbatim>\<open>googletrans\<close> can
  be imported. With the library, a call of the translator either gives a text or raises,
  which is \<open>None\<close> here.
\<close>

datatype translator = Translator "string \<Rightarrow> string \<Rightarrow> string option" | NoTranslator

definition translation_unavailable :: string where
  "translation_unavailable = '' (translation unavailable)''"

definition googletrans_not_installed :: string where
  "googletrans_not_installed = '' (Hindi translation not available - please install googletrans)''"

definition translate_text :: "translator \<Rightarrow> string \<Rightarrow> string \<Rightarrow> string" where
  "translate_text tr txt dest =
     (case tr of
        Translator translate \<Rightarrow>
          (case translate txt dest of
             Some t \<Rightarrow> t
           | None \<Rightarrow> txt @ translation_unavailable)
      | NoTranslator \<Rightarrow> txt @ googletrans_not_installed)"

datatype language = English | Hindi

text \<open>The four texts a branch writes for the chosen language.\<close>

definition display :: "translator \<Rightarrow> language \<Rightarrow> recommendations \<Rightarrow> recommendations" where
  "display tr lang recs =
     (case lang of
        English \<Rightarrow> recs
      | Hindi \<Rightarrow>
          \<lparr>diet = translate_text tr (diet recs) ''hi'',
           exercise = translate_text tr (exercise recs) ''hi'',
           sleep = translate_text tr (sleep recs) ''hi'',
           general = translate_text tr (general recs) ''hi''\<rparr>)"

subsection \<open>Notions used to state the properties\<close>

text \<open>The number of positions of a text at which a given line begins.\<close>

fun occurrences :: "string \<Rightarrow> string \<Rightarrow> nat" where
  "occurrences p [] = (if p = [] then 1 else 0)"
| "occurrences p (c # cs) = (if prefix p (c # cs) then 1 else 0) + occurrences p cs"

text \<open>A line that \<^const>\<open>str_strip\<close> cannot shorten at its end.\<close>

definition line_ok :: "string \<Rightarrow> bool" where
  "line_ok l = (l \<noteq> [] \<and> \<not> isspace (last l))"

text \<open>The lines of each category in the order of the rule table: conditions, then goals.\<close>

definition diet_table :: "string list" where
  "diet_table = [base_diet, thyroid_diet, apnea_diet, heart_diet,
                 weight_loss_diet, better_sleep_diet, energy_boost_diet]"

definition exercise_table :: "string list" where
  "exercise_table = [base_exercise, thyroid_exercise, apnea_exercise, heart_exercise,
                     weight_loss_exercise, energy_boost_exercise]"

definition sleep_table :: "string list" where
  "sleep_table = [base_sleep, apnea_sleep, better_sleep_sleep]"

definition general_table :: "string list" where
  "general_table = [base_general, heart_general]"

section \<open>Properties\<close>

subsection \<open>The lists of lines and the text blocks\<close>

text \<open>The lines of a category depend on the conditions only through three tests.\<close>

lemma collect_recs_cong:
  assumes "''Thyroid'' \<in> set a \<longleftrightarrow> ''Thyroid'' \<in> set b"
    and "''Sleep Apnea'' \<in> set a \<longleftrightarrow> ''Sleep Apnea'' \<in> set b"
    and "(''Heart Risk'' \<in> set a \<or> ''Cardiac History'' \<in> set a) \<longleftrightarrow>
         (''Heart Risk'' \<in> set b \<or> ''Cardiac History'' \<in> set b)"
  shows "collect_recs a g = collect_recs b g"
  using assms unfolding collect_recs_def condition_adjustments_def by simp

lemma diet_recs_collect:
  "diet_recs (collect_recs cs g) =
     [base_diet]
     @ (if ''Thyroid'' \<in> set cs then [thyroid_diet] else [])
     @ (if ''Sleep Apnea'' \<in> set cs then [apnea_diet] else [])
     @ (if ''Heart Risk'' \<in> set cs \<or> ''Cardiac History'' \<in> set cs then [heart_diet] else [])
     @ (if g = ''Weight Loss'' then [weight_loss_diet]
        else if g = ''Better Sleep'' then [better_sleep_diet]
        else if g = ''Energy Boost'' then [energy_boost_diet] else [])"
  by (simp add: collect_recs_def goal_tweaks_def condition_adjustments_def
      base_suggestions_def Let_def)

lemma exercise_recs_collect:
  "exercise_recs (collect_recs cs g) =
     [base_exercise]
     @ (if ''Thyroid'' \<in> set cs then [thyroid_exercise] else [])
     @ (if ''Sleep Apnea'' \<in> set cs then [apnea_exercise] else [])
     @ (if ''Heart Risk'' \<in> set cs \<or> ''Cardiac History'' \<in> set cs then [heart_exercise] else [])
     @ (if g = ''Weight Loss'' then [weight_loss_exercise]
        else if g = ''Energy Boost'' then [energy_boost_exercise] else [])"
  by (simp add: collect_recs_def goal_tweaks_def condition_adjustments_def
      base_suggestions_def Let_def)

lemma sleep_recs_collect:
  "sleep_recs (collect_recs cs g) =
     [base_sleep]
     @ (if ''Sleep Apnea'' \<in> set cs then [apnea_sleep] else [])
     @ (if g = ''Better Sleep'' then [better_sleep_sleep] else [])"
  by (simp add: collect_recs_def goal_tweaks_def condition_adjustments_def
      base_suggestions_def Let_def)

lemma general_recs_collect:
  "general_recs (collect_recs cs g) =
     [base_general]
     @ (if ''Heart Risk'' \<in> set cs \<or> ''Cardiac History'' \<in> set cs then [heart_general] else [])"
  by (simp add: collect_recs_def goal_tweaks_def condition_adjustments_def
      base_suggestions_def Let_def)

text \<open>Joining behind an empty first element puts the separator in front of every line.\<close>

lemma str_join_bullets:
  "recs \<noteq> [] \<Longrightarrow> str_join sep ([] # recs) = concat (map ((@) sep) recs)"
proof (induction recs rule: list_nonempty_induct)
  case (single x)
  show ?case by simp
next
  case (cons x xs)
  then obtain y ys where xs: "xs = y # ys" by (cases xs) auto
  from cons.IH show ?case unfolding xs by simp
qed

lemma str_strip_id:
  assumes "s \<noteq> []" "\<not> isspace (hd s)" "\<not> isspace (last s)"
  shows "str_strip s = s"
proof -
  from assms(1,2) have a: "dropWhile isspace s = s" by (cases s) auto
  from assms(1,3) have b: "dropWhile isspace (rev s) = rev s"
    by (cases "rev s") (auto simp: last_rev simp flip: hd_rev)
  show ?thesis by (simp add: str_strip_def a b)
qed

text \<open>
  A block starts with the backslash of the separator and ends with the end of its last
  line, so stripping changes nothing.
\<close>

lemma text_block_lines:
  assumes "recs \<noteq> []" "line_ok (last recs)"
  shows "text_block recs = concat (map ((@) bullet) recs)"
proof -
  let ?s = "concat (map ((@) bullet) recs)"
  from assms(1) obtain x xs where r: "recs = x # xs" by (cases recs) auto
  from assms(1) obtain ys y where r2: "recs = ys @ [y]" by (cases recs rule: rev_cases) auto
  have y: "y \<noteq> []" "\<not> isspace (last y)" using assms(2) by (simp_all add: r2 line_ok_def)
  have ne: "?s \<noteq> []" by (simp add: r bullet_def)
  have h: "\<not> isspace (hd ?s)" by (simp add: r bullet_def isspace_def)
  have l: "\<not> isspace (last ?s)" using y by (simp add: r2)
  have "text_block recs = str_strip ?s"
    unfolding text_block_def using str_join_bullets[OF assms(1)] by simp
  with ne h l show ?thesis by (simp add: str_strip_id)
qed

lemma line_ok_lines:
  "line_ok base_diet" "line_ok base_exercise" "line_ok base_sleep" "line_ok base_general"
  "line_ok thyroid_diet" "line_ok thyroid_exercise"
  "line_ok apnea_diet" "line_ok apnea_exercise" "line_ok apnea_sleep"
  "line_ok heart_diet" "line_ok heart_exercise" "line_ok heart_general"
  "line_ok weight_loss_diet" "line_ok weight_loss_exercise"
  "line_ok better_sleep_sleep" "line_ok better_sleep_diet"
  "line_ok energy_boost_diet" "line_ok energy_boost_exercise"
  by (simp_all add: line_ok_def isspace_def base_diet_def base_exercise_def base_sleep_def
      base_general_def thyroid_diet_def thyroid_exercise_def apnea_diet_def apnea_exercise_def
      apnea_sleep_def heart_diet_def heart_exercise_def heart_general_def weight_loss_diet_def
      weight_loss_exercise_def better_sleep_sleep_def better_sleep_diet_def
      energy_boost_diet_def energy_boost_exercise_def)

lemma diet_block:
  "diet (generate_recommendations cs g) =
     concat (map ((@) bullet) (diet_recs (collect_recs cs g)))"
  unfolding generate_recommendations_def collate_def
  by (simp add: text_block_lines diet_recs_collect line_ok_lines)

lemma exercise_block:
  "exercise (generate_recommendations cs g) =
     concat (map ((@) bullet) (exercise_recs (collect_recs cs g)))"
  unfolding generate_recommendations_def collate_def
  by (simp add: text_block_lines exercise_recs_collect line_ok_lines)

lemma sleep_block:
  "sleep (generate_recommendations cs g) =
     concat (map ((@) bullet) (sleep_recs (collect_recs cs g)))"
  unfolding generate_recommendations_def collate_def
  by (simp add: text_block_lines sleep_recs_collect line_ok_lines)

lemma general_block:
  "general (generate_recommendations cs g) =
     concat (map ((@) bullet) (general_recs (collect_recs cs g)))"
  unfolding generate_recommendations_def collate_def
  by (simp add: text_block_lines general_recs_collect line_ok_lines)

subsection \<open>The table: fresh ids, lookup, and the comma-joined column\<close>

lemma fold_max_ge: "a \<le> fold max xs (a::nat)"
  by (induction xs arbitrary: a) (auto intro: order_trans[OF max.cobounded2])

lemma fold_max_mem: "x \<in> set xs \<Longrightarrow> x \<le> fold max xs (a::nat)"
proof (induction xs arbitrary: a)
  case Nil
  then show ?case by simp
next
  case (Cons y ys)
  show ?case
  proof (cases "x = y")
    case True
    have "y \<le> max y a" by simp
    also have "\<dots> \<le> fold max ys (max y a)" by (rule fold_max_ge)
    finally show ?thesis using True by simp
  next
    case False
    with Cons.prems have "x \<in> set ys" by simp
    then show ?thesis using Cons.IH by simp
  qed
qed

lemma next_id_fresh: "r \<in> set (users d) \<Longrightarrow> user_id r < next_id d"
  unfolding next_id_def
  using fold_max_mem[of "user_id r" "map user_id (users d)" "sqlite_sequence d"]
  by (simp add: less_Suc_eq_le)

lemma select_fetch:
  "select_id i (fetch_profiles d) = rev (filter (\<lambda>r. user_id r = i) (users d))"
  unfolding select_id_def fetch_profiles_def
  by (simp add: rev_filter[symmetric] sort_key_stable)

lemma select_saved:
  "select_id (next_id d) (fetch_profiles (save_profile name age gender conditions goal now d)) =
     [\<lparr>user_id = next_id d, user_name = name, user_age = age, user_gender = gender,
       user_conditions = str_join '','' conditions, user_goal = goal, user_created_at = now\<rparr>]"
proof -
  have "filter (\<lambda>r. user_id r = next_id d) (users d) = []"
    using next_id_fresh[of _ d] by (fastforce simp: filter_empty_conv)
  then show ?thesis by (simp add: select_fetch save_profile_def)
qed

lemma str_split_single: "d \<notin> set x \<Longrightarrow> str_split d x = [x]"
  by (induction x) auto

lemma str_split_app: "d \<notin> set x \<Longrightarrow> str_split d (x @ d # rest) = x # str_split d rest"
  by (induction x) (auto split: list.splits)

lemma split_join:
  assumes "cs \<noteq> []" "\<forall>c\<in>set cs. d \<notin> set c"
  shows "str_split d (str_join [d] cs) = cs"
  using assms
proof (induction cs rule: list_nonempty_induct)
  case (single x)
  then show ?case by (simp add: str_split_single)
next
  case (cons x xs)
  then obtain y ys where xs: "xs = y # ys" by (cases xs) auto
  from cons show ?case unfolding xs by (simp add: str_split_app)
qed

lemma join_empty_iff:
  assumes "\<forall>c\<in>set cs. c \<noteq> []"
  shows "str_join sep cs = [] \<longleftrightarrow> cs = []"
  using assms by (induction sep cs rule: str_join.induct) auto

text \<open>
  Reading back what was joined gives the same list, when no condition is empty or holds
  a comma.
\<close>

lemma row_conditions_join:
  assumes "\<forall>c\<in>set cs. c \<noteq> [] \<and> CHR '','' \<notin> set c"
    and "user_conditions r = str_join '','' cs"
  shows "row_conditions r = cs"
proof (cases "cs = []")
  case True
  with assms(2) show ?thesis by (simp add: row_conditions_def)
next
  case False
  with assms(1) have "str_join '','' cs \<noteq> []" by (simp add: join_empty_iff)
  moreover have "str_split (CHR '','') (str_join '','' cs) = cs"
    using split_join[OF False, of "CHR '',''"] assms(1) by simp
  ultimately show ?thesis using assms(2) by (simp add: row_conditions_def)
qed

lemma options_ok: "c \<in> set condition_options \<Longrightarrow> c \<noteq> [] \<and> CHR '','' \<notin> set c"
  by (auto simp: condition_options_def)

lemma reachable_sorted: "reachable d \<Longrightarrow> sorted_wrt (<) (map user_id (users d))"
proof (induction rule: reachable.induct)
  case fresh
  show ?case by (simp add: init_db_def)
next
  case (saved d name age gender conditions goal now)
  then show ?case
    using next_id_fresh[of _ d] by (auto simp: save_profile_def sorted_wrt_append)
qed

lemma fetch_reachable: "reachable d \<Longrightarrow> fetch_profiles d = rev (users d)"
  by (simp add: fetch_profiles_def sort_key_id_if_sorted strict_sorted_imp_sorted
      reachable_sorted)

lemma fetch_desc: "sorted_wrt (\<lambda>a b. user_id b \<le> user_id a) (fetch_profiles d)"
proof -
  have "sorted (map user_id (sort_key user_id (users d)))" by simp
  then have "sorted_wrt (\<lambda>a b. user_id a \<le> user_id b) (sort_key user_id (users d))"
    by (simp add: sorted_wrt_map)
  then show ?thesis by (simp add: fetch_profiles_def sorted_wrt_rev)
qed

lemma generate_cong:
  "collect_recs a g = collect_recs b g' \<Longrightarrow>
     generate_recommendations a g = generate_recommendations b g'"
  by (simp add: generate_recommendations_def)

text \<open>The lists follow the order of the rule table.\<close>

lemma subseq_base: "subseq xs ys \<Longrightarrow> subseq ([b] @ xs) (b # ys)"
  by simp

lemma subseq_opt: "subseq xs ys \<Longrightarrow> subseq ((if p then [x] else []) @ xs) (x # ys)"
  by (cases p) (simp_all add: list_emb_Cons)

lemma subseq_opt_last: "subseq (if p then [x] else []) [x]"
  by (cases p) simp_all

lemma subseq_goal2: "subseq (if p then [a] else if q then [b] else []) [a, b]"
  by (cases p; cases q) (simp_all add: list_emb_Cons)

lemma subseq_goal3:
  "subseq (if p then [a] else if q then [b] else if r then [c] else []) [a, b, c]"
  by (cases p; cases q; cases r) (simp_all add: list_emb_Cons)

lemma sub_diet: "subseq (diet_recs (collect_recs a g)) diet_table"
  unfolding diet_recs_collect diet_table_def
  by (intro subseq_base subseq_opt subseq_goal3)

lemma sub_exercise: "subseq (exercise_recs (collect_recs a g)) exercise_table"
  unfolding exercise_recs_collect exercise_table_def
  by (intro subseq_base subseq_opt subseq_goal2)

lemma sub_sleep: "subseq (sleep_recs (collect_recs a g)) sleep_table"
  unfolding sleep_recs_collect sleep_table_def
  by (intro subseq_base subseq_opt subseq_opt_last)

lemma sub_general: "subseq (general_recs (collect_recs a g)) general_table"
  unfolding general_recs_collect general_table_def
  by (intro subseq_base subseq_opt_last)

lemma tables_distinct:
  "distinct diet_table" "distinct exercise_table" "distinct sleep_table" "distinct general_table"
  by code_simp+

subsection \<open>The texts written out, and the heart lines in them\<close>

lemma concat_map_base: "concat (map f ([b] @ xs)) = f b @ concat (map f xs)"
  by simp

lemma concat_map_opt:
  "concat (map f ((if p then [x] else []) @ xs)) = (if p then f x else []) @ concat (map f xs)"
  by simp

lemma concat_map_opt_last:
  "concat (map f (if p then [x] else [])) = (if p then f x else [])"
  by simp

lemma concat_map_goal2:
  "concat (map f (if p then [a] else if q then [b] else []))
     = (if p then f a else if q then f b else [])"
  by simp

lemma concat_map_goal3:
  "concat (map f (if p then [a] else if q then [b] else if r then [c] else []))
     = (if p then f a else if q then f b else if r then f c else [])"
  by simp

lemma diet_text:
  "diet (generate_recommendations cs g) =
     (bullet @ base_diet)
     @ (if ''Thyroid'' \<in> set cs then bullet @ thyroid_diet else [])
     @ (if ''Sleep Apnea'' \<in> set cs then bullet @ apnea_diet else [])
     @ (if ''Heart Risk'' \<in> set cs \<or> ''Cardiac History'' \<in> set cs
        then bullet @ heart_diet else [])
     @ (if g = ''Weight Loss'' then bullet @ weight_loss_diet
        else if g = ''Better Sleep'' then bullet @ better_sleep_diet
        else if g = ''Energy Boost'' then bullet @ energy_boost_diet else [])"
  unfolding diet_block diet_recs_collect
  by (simp only: concat_map_base concat_map_opt concat_map_goal3)

lemma exercise_text:
  "exercise (generate_recommendations cs g) =
     (bullet @ base_exercise)
     @ (if ''Thyroid'' \<in> set cs then bullet @ thyroid_exercise else [])
     @ (if ''Sleep Apnea'' \<in> set cs then bullet @ apnea_exercise else [])
     @ (if ''Heart Risk'' \<in> set cs \<or> ''Cardiac History'' \<in> set cs
        then bullet @ heart_exercise else [])
     @ (if g = ''Weight Loss'' then bullet @ weight_loss_exercise
        else if g = ''Energy Boost'' then bullet @ energy_boost_exercise else [])"
  unfolding exercise_block exercise_recs_collect
  by (simp only: concat_map_base concat_map_opt concat_map_goal2)

lemma sleep_text:
  "sleep (generate_recommendations cs g) =
     (bullet @ base_sleep)
     @ (if ''Sleep Apnea'' \<in> set cs then bullet @ apnea_sleep else [])
     @ (if g = ''Better Sleep'' then bullet @ better_sleep_sleep else [])"
  unfolding sleep_block sleep_recs_collect
  by (simp only: concat_map_base concat_map_opt concat_map_opt_last)

lemma general_text:
  "general (generate_recommendations cs g) =
     (bullet @ base_general)
     @ (if ''Heart Risk'' \<in> set cs \<or> ''Cardiac History'' \<in> set cs
        then bullet @ heart_general else [])"
  unfolding general_block general_recs_collect
  by (simp only: concat_map_base concat_map_opt_last)

lemma heart_diet_once_texts:
  "\<forall>pre \<in> set [[base_diet], [base_diet, thyroid_diet], [base_diet, apnea_diet],
                 [base_diet, thyroid_diet, apnea_diet]].
   \<forall>post \<in> set [[], [weight_loss_diet], [better_sleep_diet], [energy_boost_diet]].
     occurrences heart_diet (concat (map ((@) bullet) (pre @ [heart_diet] @ post))) = 1"
  by code_simp

lemma heart_exercise_once_texts:
  "\<forall>pre \<in> set [[base_exercise], [base_exercise, thyroid_exercise],
                 [base_exercise, apnea_exercise],
                 [base_exercise, thyroid_exercise, apnea_exercise]].
   \<forall>post \<in> set [[], [weight_loss_exercise], [energy_boost_exercise]].
     occurrences heart_exercise
       (concat (map ((@) bullet) (pre @ [heart_exercise] @ post))) = 1"
  by code_simp

lemma heart_general_once_text:
  "occurrences heart_general (concat (map ((@) bullet) [base_general, heart_general])) = 1"
  by code_simp

lemma diet_recs_heart_shape:
  assumes "''Heart Risk'' \<in> set a \<or> ''Cardiac History'' \<in> set a"
  shows "\<exists>pre \<in> set [[base_diet], [base_diet, thyroid_diet], [base_diet, apnea_diet],
                 [base_diet, thyroid_diet, apnea_diet]].
         \<exists>post \<in> set [[], [weight_loss_diet], [better_sleep_diet], [energy_boost_diet]].
           diet_recs (collect_recs a g) = pre @ [heart_diet] @ post"
proof -
  let ?pre = "[base_diet] @ (if ''Thyroid'' \<in> set a then [thyroid_diet] else [])
      @ (if ''Sleep Apnea'' \<in> set a then [apnea_diet] else [])"
  let ?post = "(if g = ''Weight Loss'' then [weight_loss_diet]
        else if g = ''Better Sleep'' then [better_sleep_diet]
        else if g = ''Energy Boost'' then [energy_boost_diet] else [])"
  have 1: "?pre \<in> set [[base_diet], [base_diet, thyroid_diet], [base_diet, apnea_diet],
                 [base_diet, thyroid_diet, apnea_diet]]"
    by (cases "''Thyroid'' \<in> set a"; cases "''Sleep Apnea'' \<in> set a") simp_all
  have 2: "?post \<in> set [[], [weight_loss_diet], [better_sleep_diet], [energy_boost_diet]]"
    by simp
  have 3: "diet_recs (collect_recs a g) = ?pre @ [heart_diet] @ ?post"
    unfolding diet_recs_collect using assms by simp
  from 1 2 3 show ?thesis by (intro bexI)
qed

lemma exercise_recs_heart_shape:
  assumes "''Heart Risk'' \<in> set a \<or> ''Cardiac History'' \<in> set a"
  shows "\<exists>pre \<in> set [[base_exercise], [base_exercise, thyroid_exercise],
                 [base_exercise, apnea_exercise],
                 [base_exercise, thyroid_exercise, apnea_exercise]].
         \<exists>post \<in> set [[], [weight_loss_exercise], [energy_boost_exercise]].
           exercise_recs (collect_recs a g) = pre @ [heart_exercise] @ post"
proof -
  let ?pre = "[base_exercise] @ (if ''Thyroid'' \<in> set a then [thyroid_exercise] else [])
      @ (if ''Sleep Apnea'' \<in> set a then [apnea_exercise] else [])"
  let ?post = "(if g = ''Weight Loss'' then [weight_loss_exercise]
        else if g = ''Energy Boost'' then [energy_boost_exercise] else [])"
  have 1: "?pre \<in> set [[base_exercise], [base_exercise, thyroid_exercise],
                 [base_exercise, apnea_exercise],
                 [base_exercise, thyroid_exercise, apnea_exercise]]"
    by (cases "''Thyroid'' \<in> set a"; cases "''Sleep Apnea'' \<in> set a") simp_all
  have 2: "?post \<in> set [[], [weight_loss_exercise], [energy_boost_exercise]]"
    by simp
  have 3: "exercise_recs (collect_recs a g) = ?pre @ [heart_exercise] @ ?post"
    unfolding exercise_recs_collect using assms by simp
  from 1 2 3 show ?thesis by (intro bexI)
qed

lemma heart_diet_text_once:
  assumes "''Heart Risk'' \<in> set a \<or> ''Cardiac History'' \<in> set a"
  shows "occurrences heart_diet (diet (generate_recommendations a g)) = 1"
proof -
  from diet_recs_heart_shape [OF assms, of g] obtain pre post
    where p: "pre \<in> set [[base_diet], [base_diet, thyroid_diet], [base_diet, apnea_diet],
                 [base_diet, thyroid_diet, apnea_diet]]"
      and q: "post \<in> set [[], [weight_loss_diet], [better_sleep_diet], [energy_boost_diet]]"
      and e: "diet_recs (collect_recs a g) = pre @ [heart_diet] @ post"
    by (elim bexE)
  from heart_diet_once_texts p q
  have "occurrences heart_diet (concat (map ((@) bullet) (pre @ [heart_diet] @ post))) = 1"
    by (elim ballE) (assumption | erule notE, assumption)+
  then show ?thesis unfolding diet_block e .
qed

lemma heart_exercise_text_once:
  assumes "''Heart Risk'' \<in> set a \<or> ''Cardiac History'' \<in> set a"
  shows "occurrences heart_exercise (exercise (generate_recommendations a g)) = 1"
proof -
  from exercise_recs_heart_shape [OF assms, of g] obtain pre post
    where p: "pre \<in> set [[base_exercise], [base_exercise, thyroid_exercise],
                 [base_exercise, apnea_exercise],
                 [base_exercise, thyroid_exercise, apnea_exercise]]"
      and q: "post \<in> set [[], [weight_loss_exercise], [energy_boost_exercise]]"
      and e: "exercise_recs (collect_recs a g) = pre @ [heart_exercise] @ post"
    by (elim bexE)
  from heart_exercise_once_texts p q
  have "occurrences heart_exercise
      (concat (map ((@) bullet) (pre @ [heart_exercise] @ post))) = 1"
    by (elim ballE) (assumption | erule notE, assumption)+
  then show ?thesis unfolding exercise_block e .
qed

lemma heart_general_text_once:
  assumes "''Heart Risk'' \<in> set a \<or> ''Cardiac History'' \<in> set a"
  shows "occurrences heart_general (general (generate_recommendations a g)) = 1"
proof -
  have "general_recs (collect_recs a g) = [base_general, heart_general]"
    unfolding general_recs_collect using assms by simp
  then show ?thesis unfolding general_block using heart_general_once_text by simp
qed

section \<open>The claims\<close>

text \<open>
  C1. With no condition and the goal "Healthy Habits", each of the four lists holds its
  base line only, and each of the four blocks is the separator followed by that base line,
  with nothing before or after it.
\<close>

theorem generate_baseline_only:
  "generate_recommendations [] ''Healthy Habits'' =
     \<lparr>diet = bullet @ base_diet, exercise = bullet @ base_exercise,
      sleep = bullet @ base_sleep, general = bullet @ base_general\<rparr>
   \<and> collect_recs [] ''Healthy Habits'' =
     \<lparr>diet_recs = [base_diet], exercise_recs = [base_exercise],
      sleep_recs = [base_sleep], general_recs = [base_general]\<rparr>"
  by (simp add: generate_recommendations_def collate_def collect_recs_def goal_tweaks_def
      condition_adjustments_def base_suggestions_def text_block_lines line_ok_lines)

text \<open>
  C2. For the single condition "Thyroid" and the goal "Weight Loss", the diet list is the
  base line, the thyroid line and the weight-loss line, the exercise list likewise, and in
  the diet text and the exercise text each of the thyroid and weight-loss lines begins at
  exactly one position.
\<close>

theorem thyroid_weight_loss_once:
  "diet_recs (collect_recs [''Thyroid''] ''Weight Loss'')
     = [base_diet, thyroid_diet, weight_loss_diet]
   \<and> exercise_recs (collect_recs [''Thyroid''] ''Weight Loss'')
     = [base_exercise, thyroid_exercise, weight_loss_exercise]
   \<and> occurrences thyroid_diet (diet (generate_recommendations [''Thyroid''] ''Weight Loss'')) = 1
   \<and> occurrences weight_loss_diet (diet (generate_recommendations [''Thyroid''] ''Weight Loss'')) = 1
   \<and> occurrences thyroid_exercise
        (exercise (generate_recommendations [''Thyroid''] ''Weight Loss'')) = 1
   \<and> occurrences weight_loss_exercise
        (exercise (generate_recommendations [''Thyroid''] ''Weight Loss'')) = 1"
proof -
  have d: "diet_recs (collect_recs [''Thyroid''] ''Weight Loss'')
     = [base_diet, thyroid_diet, weight_loss_diet]"
    by (simp add: diet_recs_collect)
  have e: "exercise_recs (collect_recs [''Thyroid''] ''Weight Loss'')
     = [base_exercise, thyroid_exercise, weight_loss_exercise]"
    by (simp add: exercise_recs_collect)
  have 1: "occurrences thyroid_diet
      (diet (generate_recommendations [''Thyroid''] ''Weight Loss'')) = 1"
    by code_simp
  have 2: "occurrences weight_loss_diet
      (diet (generate_recommendations [''Thyroid''] ''Weight Loss'')) = 1"
    by code_simp
  have 3: "occurrences thyroid_exercise
      (exercise (generate_recommendations [''Thyroid''] ''Weight Loss'')) = 1"
    by code_simp
  have 4: "occurrences weight_loss_exercise
      (exercise (generate_recommendations [''Thyroid''] ''Weight Loss'')) = 1"
    by code_simp
  show ?thesis by (intro conjI d e 1 2 3 4)
qed

text \<open>
  C3. Two lists of conditions with the same elements, in any order and with any
  repetitions, give the same four texts for every goal. Each returned text is its list of
  lines with the separator in front of every line, each list is a subsequence of its
  table, and written out each text is the base line, then the Thyroid line, then the
  Sleep Apnea line, then the Heart Risk or Cardiac History line, then the line of the
  goal, whatever the order in which the conditions were supplied.
\<close>

theorem generate_order_insensitive:
  assumes "set a = set b"
  shows "generate_recommendations a g = generate_recommendations b g
     \<and> subseq (diet_recs (collect_recs a g)) diet_table
     \<and> subseq (exercise_recs (collect_recs a g)) exercise_table
     \<and> subseq (sleep_recs (collect_recs a g)) sleep_table
     \<and> subseq (general_recs (collect_recs a g)) general_table
     \<and> diet (generate_recommendations a g)
         = concat (map ((@) bullet) (diet_recs (collect_recs a g)))
     \<and> exercise (generate_recommendations a g)
         = concat (map ((@) bullet) (exercise_recs (collect_recs a g)))
     \<and> sleep (generate_recommendations a g)
         = concat (map ((@) bullet) (sleep_recs (collect_recs a g)))
     \<and> general (generate_recommendations a g)
         = concat (map ((@) bullet) (general_recs (collect_recs a g)))
     \<and> diet (generate_recommendations a g) =
         (bullet @ base_diet)
         @ (if ''Thyroid'' \<in> set a then bullet @ thyroid_diet else [])
         @ (if ''Sleep Apnea'' \<in> set a then bullet @ apnea_diet else [])
         @ (if ''Heart Risk'' \<in> set a \<or> ''Cardiac History'' \<in> set a
            then bullet @ heart_diet else [])
         @ (if g = ''Weight Loss'' then bullet @ weight_loss_diet
            else if g = ''Better Sleep'' then bullet @ better_sleep_diet
            else if g = ''Energy Boost'' then bullet @ energy_boost_diet else [])
     \<and> exercise (generate_recommendations a g) =
         (bullet @ base_exercise)
         @ (if ''Thyroid'' \<in> set a then bullet @ thyroid_exercise else [])
         @ (if ''Sleep Apnea'' \<in> set a then bullet @ apnea_exercise else [])
         @ (if ''Heart Risk'' \<in> set a \<or> ''Cardiac History'' \<in> set a
            then bullet @ heart_exercise else [])
         @ (if g = ''Weight Loss'' then bullet @ weight_loss_exercise
            else if g = ''Energy Boost'' then bullet @ energy_boost_exercise else [])
     \<and> sleep (generate_recommendations a g) =
         (bullet @ base_sleep)
         @ (if ''Sleep Apnea'' \<in> set a then bullet @ apnea_sleep else [])
         @ (if g = ''Better Sleep'' then bullet @ better_sleep_sleep else [])
     \<and> general (generate_recommendations a g) =
         (bullet @ base_general)
         @ (if ''Heart Risk'' \<in> set a \<or> ''Cardiac History'' \<in> set a
            then bullet @ heart_general else [])"
proof -
  have "collect_recs a g = collect_recs b g"
    by (rule collect_recs_cong) (simp_all add: assms)
  then have "generate_recommendations a g = generate_recommendations b g"
    by (rule generate_cong)
  then show ?thesis
    by (intro conjI sub_diet sub_exercise sub_sleep sub_general
        diet_block exercise_block sleep_block general_block
        diet_text exercise_text sleep_text general_text)
qed

theorem generate_order_insensitive_witness:
  "set [''Heart Risk'', ''Thyroid'', ''Thyroid''] = set [''Thyroid'', ''Heart Risk'']
   \<and> generate_recommendations [''Heart Risk'', ''Thyroid'', ''Thyroid''] ''Better Sleep''
       = generate_recommendations [''Thyroid'', ''Heart Risk''] ''Better Sleep''
   \<and> diet_recs (collect_recs [''Heart Risk'', ''Thyroid'', ''Thyroid''] ''Better Sleep'')
       = [base_diet, thyroid_diet, heart_diet, better_sleep_diet]
   \<and> diet (generate_recommendations [''Heart Risk'', ''Thyroid'', ''Thyroid''] ''Better Sleep'')
       = bullet @ base_diet @ bullet @ thyroid_diet @ bullet @ heart_diet
         @ bullet @ better_sleep_diet"
proof -
  have h: "set [''Heart Risk'', ''Thyroid'', ''Thyroid''] = set [''Thyroid'', ''Heart Risk'']"
    by auto
  have d: "diet_recs (collect_recs [''Heart Risk'', ''Thyroid'', ''Thyroid''] ''Better Sleep'')
       = [base_diet, thyroid_diet, heart_diet, better_sleep_diet]"
    by (simp add: diet_recs_collect)
  note t = generate_order_insensitive [OF h, of "''Better Sleep''"]
  have e: "generate_recommendations [''Heart Risk'', ''Thyroid'', ''Thyroid''] ''Better Sleep''
       = generate_recommendations [''Thyroid'', ''Heart Risk''] ''Better Sleep''"
    using t by (rule conjunct1)
  have "diet (generate_recommendations [''Heart Risk'', ''Thyroid'', ''Thyroid'']
         ''Better Sleep'')
       = concat (map ((@) bullet)
           (diet_recs (collect_recs [''Heart Risk'', ''Thyroid'', ''Thyroid''] ''Better Sleep'')))"
    using t by (elim conjE)
  then have x: "diet (generate_recommendations [''Heart Risk'', ''Thyroid'', ''Thyroid'']
         ''Better Sleep'')
       = bullet @ base_diet @ bullet @ thyroid_diet @ bullet @ heart_diet
         @ bullet @ better_sleep_diet"
    unfolding d by simp
  show ?thesis by (intro conjI h e d x)
qed

text \<open>
  C4. A condition that is none of "Thyroid", "Sleep Apnea", "Heart Risk" and "Cardiac
  History" changes nothing when it is added to the conditions; a goal that is none of
  "Weight Loss", "Better Sleep" and "Energy Boost" adds no line to what the conditions give,
  and the texts are those of the goal "Healthy Habits". The function is total: no input
  makes it fail.
\<close>

theorem unknown_inputs_ignored:
  "(s \<noteq> ''Thyroid'' \<and> s \<noteq> ''Sleep Apnea'' \<and> s \<noteq> ''Heart Risk'' \<and> s \<noteq> ''Cardiac History''
      \<and> set cs' = insert s (set cs)
     \<longrightarrow> generate_recommendations cs' g = generate_recommendations cs g)
   \<and> (g \<noteq> ''Weight Loss'' \<and> g \<noteq> ''Better Sleep'' \<and> g \<noteq> ''Energy Boost''
     \<longrightarrow> collect_recs cs g = condition_adjustments cs base_suggestions
       \<and> generate_recommendations cs g = generate_recommendations cs ''Healthy Habits'')"
proof (intro conjI impI)
  assume a: "s \<noteq> ''Thyroid'' \<and> s \<noteq> ''Sleep Apnea'' \<and> s \<noteq> ''Heart Risk''
      \<and> s \<noteq> ''Cardiac History'' \<and> set cs' = insert s (set cs)"
  have "collect_recs cs' g = collect_recs cs g"
    by (rule collect_recs_cong) (use a in auto)
  then show "generate_recommendations cs' g = generate_recommendations cs g"
    by (rule generate_cong)
next
  assume g: "g \<noteq> ''Weight Loss'' \<and> g \<noteq> ''Better Sleep'' \<and> g \<noteq> ''Energy Boost''"
  then show 1: "collect_recs cs g = condition_adjustments cs base_suggestions"
    by (simp add: collect_recs_def goal_tweaks_def)
  have "collect_recs cs ''Healthy Habits'' = condition_adjustments cs base_suggestions"
    by (simp add: collect_recs_def goal_tweaks_def)
  with 1 show "generate_recommendations cs g = generate_recommendations cs ''Healthy Habits''"
    by (simp add: generate_recommendations_def)
qed

theorem unknown_inputs_ignored_witness:
  "generate_recommendations [''Thyroid'', ''Flu''] ''Weight Loss''
     = generate_recommendations [''Thyroid''] ''Weight Loss''
   \<and> collect_recs [''Thyroid''] ''Stay Fit'' = condition_adjustments [''Thyroid''] base_suggestions
   \<and> generate_recommendations [''Thyroid''] ''Stay Fit''
     = generate_recommendations [''Thyroid''] ''Healthy Habits''"
  using unknown_inputs_ignored [of "''Flu''" "[''Thyroid'', ''Flu'']" "[''Thyroid'']" "''Weight Loss''"]
        unknown_inputs_ignored [of "''Flu''" "[''Thyroid'', ''Flu'']" "[''Thyroid'']" "''Stay Fit''"]
  by auto

text \<open>
  C5. When the name is empty after stripping whitespace, the "Create Profile" button
  answers with the validation message and leaves the database as it was. Otherwise it
  runs \<^const>\<open>save_profile\<close>, which appends exactly one row: the next id, the submitted
  fields, and the clock reading taken by the function as the timestamp.
\<close>

theorem blank_name_rejected:
  "(str_strip name = [] \<longrightarrow>
      create_profile name age gender conditions goal now d = (Inl ValidationError, d))
   \<and> (str_strip name \<noteq> [] \<longrightarrow>
      snd (create_profile name age gender conditions goal now d)
        = save_profile name age gender conditions goal now d)
   \<and> users (save_profile name age gender conditions goal now d)
       = users d @
         [\<lparr>user_id = next_id d, user_name = name, user_age = age, user_gender = gender,
           user_conditions = str_join '','' conditions, user_goal = goal,
           user_created_at = now\<rparr>]
   \<and> length (users (save_profile name age gender conditions goal now d))
       = Suc (length (users d))"
  by (simp add: create_profile_def save_profile_def)

theorem blank_name_rejected_witness:
  "create_profile ''  '' 30 ''Female'' [''Thyroid''] ''Weight Loss'' ''2024-05-01T10:00:00''
       (init_db None)
     = (Inl ValidationError, init_db None)
   \<and> snd (create_profile ''Asha'' 30 ''Female'' [''Thyroid''] ''Weight Loss''
            ''2024-05-01T10:00:00'' (init_db None))
     = save_profile ''Asha'' 30 ''Female'' [''Thyroid''] ''Weight Loss''
            ''2024-05-01T10:00:00'' (init_db None)"
proof -
  have b: "str_strip ''  '' = []" by (simp add: str_strip_def isspace_def)
  have n: "str_strip ''Asha'' \<noteq> []" by (simp add: str_strip_def isspace_def)
  from b blank_name_rejected [of "''  ''" 30 "''Female''" "[''Thyroid'']" "''Weight Loss''"
      "''2024-05-01T10:00:00''" "init_db None"]
  have 1: "create_profile ''  '' 30 ''Female'' [''Thyroid''] ''Weight Loss''
       ''2024-05-01T10:00:00'' (init_db None) = (Inl ValidationError, init_db None)"
    by simp
  from n blank_name_rejected [of "''Asha''" 30 "''Female''" "[''Thyroid'']" "''Weight Loss''"
      "''2024-05-01T10:00:00''" "init_db None"]
  have 2: "snd (create_profile ''Asha'' 30 ''Female'' [''Thyroid''] ''Weight Loss''
            ''2024-05-01T10:00:00'' (init_db None))
     = save_profile ''Asha'' 30 ''Female'' [''Thyroid''] ''Weight Loss''
            ''2024-05-01T10:00:00'' (init_db None)"
    by simp
  show ?thesis by (intro conjI 1 2)
qed

text \<open>
  C6. For a submission with a name that is not blank and conditions chosen among the
  options of the form, looking up the id given to the new row finds exactly that row, its
  stored text is the comma-joined conditions, and reading it back gives the submitted list
  of conditions (the empty list included).
\<close>

theorem conditions_round_trip:
  assumes "str_strip name \<noteq> []" and "set conditions \<subseteq> set condition_options"
  shows "\<exists>r. select_id (next_id d)
               (fetch_profiles (snd (create_profile name age gender conditions goal now d)))
             = [r]
          \<and> user_conditions r = str_join '','' conditions
          \<and> row_conditions r = conditions"
proof -
  let ?r = "\<lparr>user_id = next_id d, user_name = name, user_age = age, user_gender = gender,
       user_conditions = str_join '','' conditions, user_goal = goal, user_created_at = now\<rparr>"
  have s: "snd (create_profile name age gender conditions goal now d)
      = save_profile name age gender conditions goal now d"
    using assms(1) by (simp add: create_profile_def)
  have ok: "\<forall>c\<in>set conditions. c \<noteq> [] \<and> CHR '','' \<notin> set c"
    using assms(2) options_ok by (meson subsetD)
  have rc: "row_conditions ?r = conditions"
    by (rule row_conditions_join [OF ok]) simp
  have sel: "select_id (next_id d)
      (fetch_profiles (snd (create_profile name age gender conditions goal now d))) = [?r]"
    unfolding s by (rule select_saved)
  have uc: "user_conditions ?r = str_join '','' conditions" by simp
  from sel uc rc show ?thesis by (intro exI [of _ ?r] conjI)
qed

theorem conditions_round_trip_witness:
  "\<exists>r. select_id (next_id (init_db None))
          (fetch_profiles (snd (create_profile ''Asha'' 30 ''Female''
             [''Thyroid'', ''Heart Risk''] ''Weight Loss'' ''2024-05-01T10:00:00''
             (init_db None))))
        = [r]
     \<and> user_conditions r = str_join '','' [''Thyroid'', ''Heart Risk'']
     \<and> row_conditions r = [''Thyroid'', ''Heart Risk'']"
proof -
  have a: "str_strip ''Asha'' \<noteq> []" by (simp add: str_strip_def isspace_def)
  have b: "set [''Thyroid'', ''Heart Risk''] \<subseteq> set condition_options"
    by (simp add: condition_options_def)
  show ?thesis by (rule conditions_round_trip [OF a b])
qed

text \<open>
  C7. In the Hindi display, a category whose translation call fails shows the English text
  followed by the fixed note \<^const>\<open>translation_unavailable\<close>; without the translation
  library every category shows the English text followed by the fixed note
  \<^const>\<open>googletrans_not_installed\<close>. The display is a total function: it always yields
  four texts.
\<close>

theorem translation_fallback:
  "(translate (diet recs) ''hi'' = None \<longrightarrow>
      diet (display (Translator translate) Hindi recs) = diet recs @ translation_unavailable)
   \<and> (translate (exercise recs) ''hi'' = None \<longrightarrow>
      exercise (display (Translator translate) Hindi recs)
        = exercise recs @ translation_unavailable)
   \<and> (translate (sleep recs) ''hi'' = None \<longrightarrow>
      sleep (display (Translator translate) Hindi recs) = sleep recs @ translation_unavailable)
   \<and> (translate (general recs) ''hi'' = None \<longrightarrow>
      general (display (Translator translate) Hindi recs)
        = general recs @ translation_unavailable)
   \<and> display NoTranslator Hindi recs =
       \<lparr>diet = diet recs @ googletrans_not_installed,
        exercise = exercise recs @ googletrans_not_installed,
        sleep = sleep recs @ googletrans_not_installed,
        general = general recs @ googletrans_not_installed\<rparr>"
  by (simp add: display_def translate_text_def)

theorem translation_fallback_witness:
  "diet (display (Translator (\<lambda>t d. None)) Hindi
          \<lparr>diet = ''a'', exercise = ''b'', sleep = ''c'', general = ''d''\<rparr>)
     = ''a'' @ translation_unavailable
   \<and> exercise (display (Translator (\<lambda>t d. None)) Hindi
          \<lparr>diet = ''a'', exercise = ''b'', sleep = ''c'', general = ''d''\<rparr>)
     = ''b'' @ translation_unavailable
   \<and> sleep (display (Translator (\<lambda>t d. None)) Hindi
          \<lparr>diet = ''a'', exercise = ''b'', sleep = ''c'', general = ''d''\<rparr>)
     = ''c'' @ translation_unavailable
   \<and> general (display (Translator (\<lambda>t d. None)) Hindi
          \<lparr>diet = ''a'', exercise = ''b'', sleep = ''c'', general = ''d''\<rparr>)
     = ''d'' @ translation_unavailable"
  using translation_fallback [of "\<lambda>t d. None"
      "\<lparr>diet = ''a'', exercise = ''b'', sleep = ''c'', general = ''d''\<rparr>"]
  by simp

text \<open>
  C8. \<^const>\<open>fetch_profiles\<close> returns exactly the stored rows, by descending id, and no
  row when the table is empty; in a database built by the program the ids are strictly
  descending and the order is the reverse of the order of insertion, the newest row first.
\<close>

theorem fetch_profiles_newest_first:
  "mset (fetch_profiles d) = mset (users d)
   \<and> sorted_wrt (\<lambda>a b. user_id b \<le> user_id a) (fetch_profiles d)
   \<and> (users d = [] \<longrightarrow> fetch_profiles d = [])
   \<and> (reachable d \<longrightarrow>
        fetch_profiles d = rev (users d)
        \<and> sorted_wrt (\<lambda>a b. user_id b < user_id a) (fetch_profiles d))"
proof (intro conjI impI)
  show "mset (fetch_profiles d) = mset (users d)"
    by (simp add: fetch_profiles_def)
  show "sorted_wrt (\<lambda>a b. user_id b \<le> user_id a) (fetch_profiles d)"
    by (rule fetch_desc)
  show "fetch_profiles d = []" if "users d = []"
    using that by (simp add: fetch_profiles_def)
  show "fetch_profiles d = rev (users d)" if "reachable d"
    using that by (rule fetch_reachable)
  show "sorted_wrt (\<lambda>a b. user_id b < user_id a) (fetch_profiles d)" if r: "reachable d"
  proof -
    from r have "sorted_wrt (\<lambda>a b. user_id a < user_id b) (users d)"
      using reachable_sorted [of d] by (simp add: sorted_wrt_map)
    then show ?thesis by (simp add: fetch_reachable [OF r] sorted_wrt_rev)
  qed
qed

theorem fetch_profiles_newest_first_witness:
  "fetch_profiles (init_db None) = []
   \<and> map user_name (fetch_profiles
        (save_profile ''Ravi'' 41 ''Male'' [] ''Better Sleep'' ''2024-05-02T09:00:00''
          (save_profile ''Asha'' 30 ''Female'' [''Thyroid''] ''Weight Loss''
            ''2024-05-01T10:00:00'' (init_db None))))
     = [''Ravi'', ''Asha'']"
proof -
  let ?d1 = "save_profile ''Asha'' 30 ''Female'' [''Thyroid''] ''Weight Loss''
            ''2024-05-01T10:00:00'' (init_db None)"
  let ?d2 = "save_profile ''Ravi'' 41 ''Male'' [] ''Better Sleep'' ''2024-05-02T09:00:00'' ?d1"
  have e: "users (init_db None) = []" by (simp add: init_db_def)
  have r: "reachable ?d2" by (intro reachable.intros)
  from e fetch_profiles_newest_first [of "init_db None"]
  have 1: "fetch_profiles (init_db None) = []" by simp
  from r fetch_profiles_newest_first [of ?d2]
  have "fetch_profiles ?d2 = rev (users ?d2)" by simp
  then have 2: "map user_name (fetch_profiles ?d2) = [''Ravi'', ''Asha'']"
    by (simp add: save_profile_def init_db_def)
  show ?thesis by (intro conjI 1 2)
qed

text \<open>
  C9. Two lists of conditions that each hold "Heart Risk" or "Cardiac History" (or both)
  and agree on all other conditions give the same four texts. The heart line of the diet,
  of the exercise and of the general category occurs exactly once in its list, and in the
  returned diet, exercise and general text it begins at exactly one position: it is there,
  and it is not repeated when both tags are present.
\<close>

theorem heart_tags_once:
  assumes "''Heart Risk'' \<in> set a \<or> ''Cardiac History'' \<in> set a"
    and "''Heart Risk'' \<in> set b \<or> ''Cardiac History'' \<in> set b"
    and "set a - {''Heart Risk'', ''Cardiac History''} = set b - {''Heart Risk'', ''Cardiac History''}"
  shows "generate_recommendations a g = generate_recommendations b g
     \<and> count_list (diet_recs (collect_recs a g)) heart_diet = 1
     \<and> count_list (exercise_recs (collect_recs a g)) heart_exercise = 1
     \<and> count_list (general_recs (collect_recs a g)) heart_general = 1
     \<and> occurrences heart_diet (diet (generate_recommendations a g)) = 1
     \<and> occurrences heart_exercise (exercise (generate_recommendations a g)) = 1
     \<and> occurrences heart_general (general (generate_recommendations a g)) = 1
     \<and> occurrences heart_diet (diet (generate_recommendations b g)) = 1
     \<and> occurrences heart_exercise (exercise (generate_recommendations b g)) = 1
     \<and> occurrences heart_general (general (generate_recommendations b g)) = 1"
proof -
  have t: "''Thyroid'' \<in> set a \<longleftrightarrow> ''Thyroid'' \<in> set b"
  proof -
    have "''Thyroid'' \<in> set a \<longleftrightarrow> ''Thyroid'' \<in> set a - {''Heart Risk'', ''Cardiac History''}"
      by simp
    also have "\<dots> \<longleftrightarrow> ''Thyroid'' \<in> set b - {''Heart Risk'', ''Cardiac History''}"
      by (simp only: assms(3))
    also have "\<dots> \<longleftrightarrow> ''Thyroid'' \<in> set b" by simp
    finally show ?thesis .
  qed
  have s: "''Sleep Apnea'' \<in> set a \<longleftrightarrow> ''Sleep Apnea'' \<in> set b"
  proof -
    have "''Sleep Apnea'' \<in> set a
        \<longleftrightarrow> ''Sleep Apnea'' \<in> set a - {''Heart Risk'', ''Cardiac History''}"
      by simp
    also have "\<dots> \<longleftrightarrow> ''Sleep Apnea'' \<in> set b - {''Heart Risk'', ''Cardiac History''}"
      by (simp only: assms(3))
    also have "\<dots> \<longleftrightarrow> ''Sleep Apnea'' \<in> set b" by simp
    finally show ?thesis .
  qed
  have "collect_recs a g = collect_recs b g"
    by (rule collect_recs_cong) (use t s assms(1,2) in simp_all)
  then have 1: "generate_recommendations a g = generate_recommendations b g"
    by (rule generate_cong)
  have 2: "count_list (diet_recs (collect_recs a g)) heart_diet = 1"
    using assms(1) tables_distinct(1) by (auto simp add: diet_recs_collect diet_table_def)
  have 3: "count_list (exercise_recs (collect_recs a g)) heart_exercise = 1"
    using assms(1) tables_distinct(2)
    by (auto simp add: exercise_recs_collect exercise_table_def)
  have 4: "count_list (general_recs (collect_recs a g)) heart_general = 1"
    using assms(1) tables_distinct(4)
    by (auto simp add: general_recs_collect general_table_def)
  show ?thesis
    by (intro conjI 1 2 3 4
        heart_diet_text_once [OF assms(1)] heart_exercise_text_once [OF assms(1)]
        heart_general_text_once [OF assms(1)]
        heart_diet_text_once [OF assms(2)] heart_exercise_text_once [OF assms(2)]
        heart_general_text_once [OF assms(2)])
qed

theorem heart_tags_once_witness:
  "generate_recommendations [''Heart Risk'', ''Thyroid''] ''Energy Boost''
     = generate_recommendations [''Thyroid'', ''Cardiac History'', ''Heart Risk''] ''Energy Boost''
   \<and> count_list (diet_recs (collect_recs [''Heart Risk'', ''Thyroid''] ''Energy Boost''))
       heart_diet = 1
   \<and> count_list (exercise_recs (collect_recs [''Heart Risk'', ''Thyroid''] ''Energy Boost''))
       heart_exercise = 1
   \<and> count_list (general_recs (collect_recs [''Heart Risk'', ''Thyroid''] ''Energy Boost''))
       heart_general = 1
   \<and> occurrences heart_diet
       (diet (generate_recommendations [''Heart Risk'', ''Thyroid''] ''Energy Boost'')) = 1
   \<and> occurrences heart_exercise
       (exercise (generate_recommendations [''Heart Risk'', ''Thyroid''] ''Energy Boost'')) = 1
   \<and> occurrences heart_general
       (general (generate_recommendations [''Heart Risk'', ''Thyroid''] ''Energy Boost'')) = 1
   \<and> occurrences heart_diet
       (diet (generate_recommendations [''Thyroid'', ''Cardiac History'', ''Heart Risk'']
          ''Energy Boost'')) = 1
   \<and> occurrences heart_exercise
       (exercise (generate_recommendations [''Thyroid'', ''Cardiac History'', ''Heart Risk'']
          ''Energy Boost'')) = 1
   \<and> occurrences heart_general
       (general (generate_recommendations [''Thyroid'', ''Cardiac History'', ''Heart Risk'']
          ''Energy Boost'')) = 1"
proof -
  have a: "''Heart Risk'' \<in> set [''Heart Risk'', ''Thyroid'']
      \<or> ''Cardiac History'' \<in> set [''Heart Risk'', ''Thyroid'']"
    by simp
  have b: "''Heart Risk'' \<in> set [''Thyroid'', ''Cardiac History'', ''Heart Risk'']
      \<or> ''Cardiac History'' \<in> set [''Thyroid'', ''Cardiac History'', ''Heart Risk'']"
    by simp
  have c: "set [''Heart Risk'', ''Thyroid''] - {''Heart Risk'', ''Cardiac History''}
      = set [''Thyroid'', ''Cardiac History'', ''Heart Risk'']
          - {''Heart Risk'', ''Cardiac History''}"
    by auto
  show ?thesis by (rule heart_tags_once [OF a b c])
qed

text \<open>
  C10. Whatever the conditions and the goal, the first line of each of the four lists is
  the base line of its category, and each text starts with the separator and that base
  line; every other line comes after it.
\<close>

theorem baseline_first:
  "(\<exists>rest. diet_recs (collect_recs cs g) = base_diet # rest
        \<and> diet (generate_recommendations cs g)
            = bullet @ base_diet @ concat (map ((@) bullet) rest))
   \<and> (\<exists>rest. exercise_recs (collect_recs cs g) = base_exercise # rest
        \<and> exercise (generate_recommendations cs g)
            = bullet @ base_exercise @ concat (map ((@) bullet) rest))
   \<and> (\<exists>rest. sleep_recs (collect_recs cs g) = base_sleep # rest
        \<and> sleep (generate_recommendations cs g)
            = bullet @ base_sleep @ concat (map ((@) bullet) rest))
   \<and> (\<exists>rest. general_recs (collect_recs cs g) = base_general # rest
        \<and> general (generate_recommendations cs g)
            = bullet @ base_general @ concat (map ((@) bullet) rest))"
proof (intro conjI)
  show "\<exists>rest. diet_recs (collect_recs cs g) = base_diet # rest
        \<and> diet (generate_recommendations cs g)
            = bullet @ base_diet @ concat (map ((@) bullet) rest)"
    unfolding diet_block by (simp add: diet_recs_collect)
  show "\<exists>rest. exercise_recs (collect_recs cs g) = base_exercise # rest
        \<and> exercise (generate_recommendations cs g)
            = bullet @ base_exercise @ concat (map ((@) bullet) rest)"
    unfolding exercise_block by (simp add: exercise_recs_collect)
  show "\<exists>rest. sleep_recs (collect_recs cs g) = base_sleep # rest
        \<and> sleep (generate_recommendations cs g)
            = bullet @ base_sleep @ concat (map ((@) bullet) rest)"
    unfolding sleep_block by (simp add: sleep_recs_collect)
  show "\<exists>rest. general_recs (collect_recs cs g) = base_general # rest
        \<and> general (generate_recommendations cs g)
            = bullet @ base_general @ concat (map ((@) bullet) rest)"
    unfolding general_block by (simp add: general_recs_collect)
qed

end
